theory Spec2Isabelle
  imports Complex_Main
begin

section \<open>Data model of the trader (fract/model/base.py)\<close>

text \<open>
  Python floats are modelled as exact reals: rounding and infinities are not part of
  the model, and a float division by zero raises, as Python's does. The statistics that
  pandas returns may be NaN; they are values of \<open>real option\<close> with \<open>None\<close> for NaN. Strings stay
  strings (sides and actions are \<open>''long''\<close>, \<open>''short''\<close>, \<open>''closing''\<close>), a Python
  \<open>None\<close> is \<open>None\<close>, and every exception of the source is a value of \<open>error\<close>.
\<close>

datatype error =
    TypeError string
  | KeyError string
  | IndexError
  | ZeroDivisionError
  | BrokerError string

text \<open>\<open>int(x)\<close> on a float truncates toward zero.\<close>

definition py_int :: "real \<Rightarrow> int" where
  "py_int x = (if 0 \<le> x then \<lfloor>x\<rfloor> else \<lceil>x\<rceil>)"

text \<open>A float division \<open>a / b\<close> of Python.\<close>

definition py_div :: "real \<Rightarrow> real \<Rightarrow> error + real" where
  "py_div a b = (if b = 0 then Inl ZeroDivisionError else Inr (a / b))"

text \<open>
  A dict with string keys is an association list in insertion order with distinct keys:
  \<open>d.get(k)\<close> is \<open>map_of d k\<close>, \<open>d[k]\<close> raises KeyError on a missing key,
  \<open>d[k] = v\<close> replaces the value in place or appends, and a dict comprehension inserts
  its items in order.
\<close>

type_synonym 'v dict = "(string \<times> 'v) list"

definition getitem :: "'v dict \<Rightarrow> string \<Rightarrow> error + 'v" where
  "getitem d k = (case map_of d k of None \<Rightarrow> Inl (KeyError k) | Some v \<Rightarrow> Inr v)"

definition setitem :: "'v dict \<Rightarrow> string \<Rightarrow> 'v \<Rightarrow> 'v dict" where
  "setitem d k v =
     (if k \<in> fst ` set d then map (\<lambda>(k', v'). if k' = k then (k', v) else (k', v')) d
      else d @ [(k, v)])"

definition dict_of_items :: "(string \<times> 'v) list \<Rightarrow> 'v dict" where
  "dict_of_items items = foldl (\<lambda>d (k, v). setitem d k v) [] items"

text \<open>\<open>s.split(c)\<close> for a one-character separator.\<close>

fun split_on :: "char \<Rightarrow> string \<Rightarrow> string list" where
  "split_on c [] = [[]]"
| "split_on c (x # xs) =
     (if x = c then [] # split_on c xs
      else (case split_on c xs of [] \<Rightarrow> [[x]] | w # ws \<Rightarrow> (x # w) # ws))"

text \<open>\<open>xs[n]\<close> on a list, for a non-negative index.\<close>

definition index :: "'a list \<Rightarrow> nat \<Rightarrow> error + 'a" where
  "index xs n = (if n < length xs then Inr (xs ! n) else Inl IndexError)"

text \<open>An entry of \<open>pos_dict\<close>: \<open>{'side': s, 'units': n}\<close>.\<close>

record position =
  side :: string
  units :: int

text \<open>The fields of an instrument of \<open>inst_dict\<close> that the trader reads.\<close>

record instrument_info =
  tradeable :: bool
  marginRate :: real
  maximumOrderUnits :: real
  pipLocation :: real
  minimumTrailingStopDistance :: real
  maximumTrailingStopDistance :: real

text \<open>A row of a rate data frame (\<open>df_rate\<close>) and an entry of the rate dict.\<close>

record rate_row =
  instrument :: string
  bid :: real
  ask :: real

record rate =
  rbid :: real
  rask :: real

text \<open>A transaction of the transaction list: instrument and realized P/L.\<close>

record txn =
  tinstrument :: string
  pl :: real

text \<open>The configuration \<open>cf\<close>: the keys the trader reads.\<close>

record config =
  preserve :: real              \<comment> \<open>\<open>cf['position']['margin_nav_ratio']['preserve']\<close>\<close>
  unit_ratio :: real            \<comment> \<open>\<open>...['margin_nav_ratio']['unit']\<close>\<close>
  init_ratio :: real            \<comment> \<open>\<open>...['margin_nav_ratio']['init']\<close>\<close>
  max_spread :: real            \<comment> \<open>\<open>cf['position']['limit_price_ratio']['max_spread']\<close>\<close>
  trailing_stop :: real         \<comment> \<open>\<open>...['limit_price_ratio']['trailing_stop']\<close>\<close>
  take_profit :: real           \<comment> \<open>\<open>...['limit_price_ratio']['take_profit']\<close>\<close>
  stop_loss :: real             \<comment> \<open>\<open>...['limit_price_ratio']['stop_loss']\<close>\<close>
  ttl_sec :: real               \<comment> \<open>\<open>cf['position']['ttl_sec']\<close>\<close>
  alpha :: real                 \<comment> \<open>\<open>cf['model']['ewma']['alpha']\<close>\<close>
  sigma_band :: real            \<comment> \<open>\<open>cf['model']['ewma']['sigma_band']\<close>\<close>

text \<open>What the signal detector returns: the action and the band it was read from.\<close>

type_synonym fl = "real option"

record signal =
  sig_act :: "string option"
  sig_ewma :: fl
  sig_ewmbbl :: fl
  sig_ewmbbu :: fl

text \<open>
  The state line of a decision: a fixed label, or the holding percentage with its side
  (\<open>'{:.1f}% LONG'.format(pos_pct)\<close>).
\<close>

datatype state_label = Label string | Pct int string

record decision =
  act :: "string option"
  state :: state_label
  dsig :: signal

text \<open>
  The snapshot a decision reads: the fields of \<open>TraderCore\<close> that
  \<open>determine_sig_state\<close>, \<open>_is_margin_lack\<close> and \<open>_design_order_units\<close> use. The values
  are those of the latest refresh.
\<close>

record snapshot =
  cf :: config
  pos_dict :: "position dict"
  balance :: real
  margin_avail :: real
  inst_dict :: "instrument_info dict"
  rate_dict :: "rate dict"
  unit_costs :: "real dict"
  txn_list :: "txn list"

section \<open>Health checks and the decision table\<close>

text \<open>
  \<open>_is_margin_lack\<close>: \<open>not self.pos_dict.get(instrument) and
  self.margin_avail <= self.balance * preserve\<close>. An entry of \<open>pos_dict\<close> is a
  non-empty dict, hence truthy, so \<open>not pos\<close> holds exactly for a missing entry.
\<close>

definition is_margin_lack :: "'a snapshot_scheme \<Rightarrow> string \<Rightarrow> bool" where
  "is_margin_lack t i =
     (map_of (pos_dict t) i = None \<and> margin_avail t \<le> balance t * preserve (cf t))"

text \<open>
  The spread ratio of \<open>_is_over_spread\<close>, \<open>(ask - bid) / (ask + bid) * 2\<close>, on the last
  row. The division is one of pandas: a zero denominator gives an infinity of the
  numerator's sign or NaN instead of raising, so the comparison with \<open>max_spread\<close> is
  written out for that case (only \<open>+inf\<close> is \<open>>=\<close> a number).
\<close>

definition spread_ratio :: "rate_row \<Rightarrow> real" where
  "spread_ratio d = (ask d - bid d) / (ask d + bid d) * 2"

definition is_over_spread :: "'a snapshot_scheme \<Rightarrow> rate_row list \<Rightarrow> error + bool" where
  "is_over_spread t df_rate =
     (if df_rate = [] then Inl IndexError
      else
          (let d = last df_rate in
           if ask d + bid d = 0 then Inr (0 < ask d - bid d)
           else Inr (max_spread (cf t) \<le> spread_ratio d)))"

text \<open>
  \<open>determine_sig_state\<close>. The detector call
  \<open>self.__ai.detect_signal(history_dict=self._fetch_history_dict(i), pos=pos)\<close> is the
  argument \<open>ai\<close>, a function of the position that may raise. The order of evaluation is
  the source's: instrument of the last row, position, holding percentage (which divides
  by the balance), signal, then the \<open>if\<close>/\<open>elif\<close> chain. The log string is formatting
  only and is left out.
\<close>

definition pos_pct_of :: "'a snapshot_scheme \<Rightarrow> string \<Rightarrow> error + int" where
  "pos_pct_of t i =
     (case map_of (pos_dict t) i of
        None \<Rightarrow> Inr 0
      | Some p \<Rightarrow>
          (case getitem (unit_costs t) i of
             Inl e \<Rightarrow> Inl e
           | Inr c \<Rightarrow>
               (case py_div (real_of_int \<bar>units p\<bar> * c * 100) (balance t) of
                  Inl e \<Rightarrow> Inl e
                | Inr q \<Rightarrow> Inr (py_int q))))"

definition pos_is :: "position option \<Rightarrow> string \<Rightarrow> bool" where
  "pos_is pos s = (case pos of None \<Rightarrow> False | Some p \<Rightarrow> side p = s)"

definition determine_sig_state ::
  "'a snapshot_scheme \<Rightarrow> (position option \<Rightarrow> error + signal) \<Rightarrow> rate_row list
     \<Rightarrow> error + decision"
where
  "determine_sig_state t ai df_rate =
     (if df_rate = [] then Inl IndexError
      else
     (let i = instrument (last df_rate); pos = map_of (pos_dict t) i in
      (case pos_pct_of t i of Inl e \<Rightarrow> Inl e | Inr pos_pct \<Rightarrow>
      (case ai pos of Inl e \<Rightarrow> Inl e | Inr sig \<Rightarrow>
      (case getitem (inst_dict t) i of Inl e \<Rightarrow> Inl e | Inr ie \<Rightarrow>
      (if \<not> tradeable ie then
        Inr \<lparr>act = None, state = Label ''TRADING HALTED'', dsig = sig\<rparr>
      else if sig_act sig = Some ''closing'' then
        Inr \<lparr>act = Some ''closing'', state = Label ''CLOSING'', dsig = sig\<rparr>
      else if py_int (balance t) = 0 then
        Inr \<lparr>act = None, state = Label ''NO FUND'', dsig = sig\<rparr>
      else if is_margin_lack t i then
        Inr \<lparr>act = None, state = Label ''LACK OF FUNDS'', dsig = sig\<rparr>
      else
      (case is_over_spread t df_rate of Inl e \<Rightarrow> Inl e | Inr over \<Rightarrow>
      (if over then
        Inr \<lparr>act = None, state = Label ''OVER-SPREAD'', dsig = sig\<rparr>
      else if sig_act sig = Some ''long'' then
        (if pos_is pos ''long'' then
           Inr \<lparr>act = None, state = Pct pos_pct ''LONG'', dsig = sig\<rparr>
         else if pos_is pos ''short'' then
           Inr \<lparr>act = Some ''long'', state = Label ''SHORT -> LONG'', dsig = sig\<rparr>
         else
           Inr \<lparr>act = Some ''long'', state = Label ''-> LONG'', dsig = sig\<rparr>)
      else if sig_act sig = Some ''short'' then
        (if pos_is pos ''short'' then
           Inr \<lparr>act = None, state = Pct pos_pct ''SHORT'', dsig = sig\<rparr>
         else if pos_is pos ''long'' then
           Inr \<lparr>act = Some ''short'', state = Label ''LONG -> SHORT'', dsig = sig\<rparr>
         else
           Inr \<lparr>act = Some ''short'', state = Label ''-> SHORT'', dsig = sig\<rparr>)
      else if pos_is pos ''long'' then
        Inr \<lparr>act = None, state = Pct pos_pct ''LONG'', dsig = sig\<rparr>
      else if pos_is pos ''short'' then
        Inr \<lparr>act = None, state = Pct pos_pct ''SHORT'', dsig = sig\<rparr>
      else
        Inr \<lparr>act = None, state = Label ''-'', dsig = sig\<rparr>))))))))"

section \<open>Order sizing\<close>

text \<open>
  \<open>_design_order_units\<close>. \<open>BettingSystem.calculate_size_by_pl\<close> (fract/model/bet.py) is
  the argument \<open>bs\<close>: it receives the unit size, the initial size and the transactions
  of the instrument, and may raise. \<open>np.ceil\<close> is the ceiling, \<open>int\<close> truncates, and
  the sign is looked up in \<open>{'long': 1, 'short': -1}\<close> last.
\<close>

type_synonym betting = "real \<Rightarrow> real \<Rightarrow> txn list \<Rightarrow> error + real"

definition side_sign :: "string \<Rightarrow> error + real" where
  "side_sign s =
     (if s = ''long'' then Inr 1 else if s = ''short'' then Inr (- 1) else Inl (KeyError s))"

definition avail_size_of :: "'a snapshot_scheme \<Rightarrow> real \<Rightarrow> error + real" where
  "avail_size_of t c =
     (case py_div (margin_avail t - balance t * preserve (cf t)) c of
        Inl e \<Rightarrow> Inl e
      | Inr q \<Rightarrow> Inr (max (real_of_int \<lceil>q\<rceil>) 0))"

definition bet_size_of :: "betting \<Rightarrow> 'a snapshot_scheme \<Rightarrow> string \<Rightarrow> real \<Rightarrow> error + real" where
  "bet_size_of bs t i c =
     (let unit_size = real_of_int \<lceil>balance t * unit_ratio (cf t) / c\<rceil>;
          init_size = real_of_int \<lceil>balance t * init_ratio (cf t) / c\<rceil>
      in bs unit_size init_size (filter (\<lambda>x. tinstrument x = i) (txn_list t)))"

definition design_order_units ::
  "betting \<Rightarrow> 'a snapshot_scheme \<Rightarrow> string \<Rightarrow> string \<Rightarrow> error + int"
where
  "design_order_units bs t i s =
     (case getitem (inst_dict t) i of Inl e \<Rightarrow> Inl e | Inr ie \<Rightarrow>
     (let max_size = py_int (maximumOrderUnits ie) in
     (case getitem (unit_costs t) i of Inl e \<Rightarrow> Inl e | Inr c \<Rightarrow>
     (case avail_size_of t c of Inl e \<Rightarrow> Inl e | Inr avail_size \<Rightarrow>
     (case bet_size_of bs t i c of Inl e \<Rightarrow> Inl e | Inr bet_size \<Rightarrow>
     (case side_sign s of Inl e \<Rightarrow> Inl e | Inr sg \<Rightarrow>
        Inr (py_int (min bet_size (min avail_size (real_of_int max_size)) * sg))))))))"

section \<open>The EWMA signal detector (fract/model/ewma.py)\<close>

text \<open>
  Arithmetic and comparisons on values that may be NaN: an operation on NaN is NaN and
  every comparison with NaN is false.
\<close>

definition fl_mul :: "fl \<Rightarrow> fl \<Rightarrow> fl" where
  "fl_mul a b = (case (a, b) of (Some x, Some y) \<Rightarrow> Some (x * y) | _ \<Rightarrow> None)"

definition fl_add :: "fl \<Rightarrow> fl \<Rightarrow> fl" where
  "fl_add a b = (case (a, b) of (Some x, Some y) \<Rightarrow> Some (x + y) | _ \<Rightarrow> None)"

definition fl_neg0 :: "fl \<Rightarrow> bool" where
  "fl_neg0 a = (case a of Some x \<Rightarrow> x < 0 | None \<Rightarrow> False)"

definition fl_pos0 :: "fl \<Rightarrow> bool" where
  "fl_pos0 a = (case a of Some x \<Rightarrow> 0 < x | None \<Rightarrow> False)"

text \<open>
  What the detector calls outside ewma.py: \<open>LRFeatureSieve.extract_best_feature\<close>
  (fract/model/sieve.py), which picks a series from the history, and the last values of
  pandas' \<open>series.ewm(alpha=...).mean()\<close> and \<open>.std()\<close>. Each may raise
  (\<open>.iloc[-1]\<close> on an empty series does).
\<close>

record ('h, 's) ewma_deps =
  extract_best_feature :: "'h \<Rightarrow> error + 's"
  ewm_mean_last :: "real \<Rightarrow> 's \<Rightarrow> error + fl"
  ewm_std_last :: "real \<Rightarrow> 's \<Rightarrow> error + fl"

text \<open>\<open>_ewm_stats\<close>: the mean and the band \<open>[-1, 1] * std * sigma_band + ewma\<close>.\<close>

definition ewm_stats ::
  "('h, 's) ewma_deps \<Rightarrow> config \<Rightarrow> 's \<Rightarrow> error + (fl \<times> fl \<times> fl)"
where
  "ewm_stats lib c series =
     (case ewm_mean_last lib (alpha c) series of Inl e \<Rightarrow> Inl e | Inr ewma \<Rightarrow>
     (case ewm_std_last lib (alpha c) series of Inl e \<Rightarrow> Inl e | Inr sd \<Rightarrow>
        Inr (ewma,
             fl_add (fl_mul (fl_mul (Some (- 1)) sd) (Some (sigma_band c))) ewma,
             fl_add (fl_mul (fl_mul (Some 1) sd) (Some (sigma_band c))) ewma)))"

text \<open>
  \<open>detect_signal\<close>: the side is the sign of the mean (flipped by \<open>contrary\<close>), and it
  is the action when the upper bound is negative or the lower bound is positive. The
  argument \<open>pos\<close> is not read.
\<close>

definition detect_signal ::
  "('h, 's) ewma_deps \<Rightarrow> config \<Rightarrow> 'h \<Rightarrow> position option \<Rightarrow> bool \<Rightarrow> error + signal"
where
  "detect_signal lib c history_dict pos contrary =
     (case extract_best_feature lib history_dict of Inl e \<Rightarrow> Inl e | Inr series \<Rightarrow>
     (case ewm_stats lib c series of Inl e \<Rightarrow> Inl e | Inr (ewma, bbl, bbu) \<Rightarrow>
     (let sig_side =
            (if fl_neg0 (fl_mul ewma (Some (if contrary then - 1 else 1)))
             then ''short'' else ''long'');
          a = (if fl_neg0 bbu \<or> fl_pos0 bbl then Some sig_side else None)
      in Inr \<lparr>sig_act = a, sig_ewma = ewma, sig_ewmbbl = bbl, sig_ewmbbu = bbu\<rparr>)))"

section \<open>The trader: state, broker and effects\<close>

text \<open>What the broker client returns: the parts of the response bodies that are read.\<close>

record side_info =
  side_units :: real
  tradeIDs :: "string list"

record account_position =
  p_instrument :: string
  p_long :: side_info
  p_short :: side_info

record account_body =
  a_balance :: real
  a_marginAvailable :: real
  a_currency :: string
  a_positions :: "account_position list"

record txn_body =
  lastTransactionID :: string
  transactions :: "txn list"

record price =
  pr_instrument :: string
  closeoutBid :: real
  closeoutAsk :: real

text \<open>The limits and the order of \<open>design_and_place_order\<close>, and the arguments of a request.\<close>

record limits =
  takeProfitOnFill :: real
  stopLossOnFill :: real
  trailingStopLossOnFill :: real

record order =
  o_instrument :: string
  o_units :: int
  o_limits :: limits

datatype kwargs = Kw_instrument string | Kw_order order

type_synonym f_args = "string \<times> kwargs \<times> (string \<times> string) list"

record request =
  func :: string
  args :: f_args

datatype placed = Recorded request | Sent string

text \<open>
  The effects of the trader, in the order they happen: broker calls, logging at info and
  error level, prints, file writes, sleeps, and the calls of the two abstract methods.
  Debug logging is left out. A message keeps the values that the source formats.
\<close>

datatype message =
    Open_deals
  | Elapsed "int dict" real
  | Close_position_units "int dict"
  | Close_position_side string
  | Open_order string
  | Dry_run request
  | Transactions "txn list"

datatype written = Written_error error | Written_body string | Written_txns "txn list"

datatype event =
    Api_account_get
  | Api_transaction_since string
  | Api_transaction_list
  | Api_account_instruments
  | Api_pricing_get "string list"
  | Api_position_close f_args
  | Api_order_create f_args
  | Log_response
  | Log_info message
  | Log_error error
  | Print message
  | Write_data string written
  | Sleep real
  | Call_check_health
  | Call_make_decision string

text \<open>
  The world outside the process: the clock and the broker. Each is asked in turn; the
  answer to the \<open>n\<close>-th question is a function of \<open>n\<close>, so answers may change over
  time. A broker call raises (\<open>Inl\<close>), or returns a body, which is \<open>None\<close> when it lacks
  the key the trader reads.
\<close>

record world =
  now_at :: "nat \<Rightarrow> real"
  account_get :: "nat \<Rightarrow> error + account_body option"
  transaction_since :: "nat \<Rightarrow> string \<Rightarrow> error + txn_body option"
  transaction_list :: "nat \<Rightarrow> error + txn_body option"
  account_instruments :: "nat \<Rightarrow> error + (string \<times> instrument_info) list option"
  pricing_get :: "nat \<Rightarrow> string list \<Rightarrow> error + price list option"
  position_close :: "nat \<Rightarrow> f_args \<Rightarrow> error + string"
  order_create :: "nat \<Rightarrow> f_args \<Rightarrow> error + string"

text \<open>An entry of the position-time dict: \<open>{'time': dt, 'units': units}\<close>.\<close>

record ptime =
  ptime :: real
  punits :: "int dict"

text \<open>
  The trader object: the snapshot and the private fields, with the effects so far
  (\<open>trace\<close>) and the number of questions asked of the world (\<open>ticks\<close>).
\<close>

record trader = snapshot +
  account_id :: string
  instruments :: "string list"
  quiet :: bool
  dry_run :: bool
  order_log_path :: "string option"
  txn_log_path :: "string option"
  last_txn_id :: "string option"
  acc_currency :: string
  ptime_dict :: "ptime dict"
  trace :: "event list"
  ticks :: nat

text \<open>
  A method is a function from the trader to a result and the trader after it. An
  exception keeps the mutations and the effects made before it was raised.
\<close>

type_synonym 'a run = "trader \<Rightarrow> (error + 'a) \<times> trader"

definition ret :: "'a \<Rightarrow> 'a run" where
  "ret x t = (Inr x, t)"

definition raise :: "error \<Rightarrow> 'a run" where
  "raise e t = (Inl e, t)"

definition seq :: "'a run \<Rightarrow> ('a \<Rightarrow> 'b run) \<Rightarrow> 'b run" where
  "seq m f t = (case m t of (Inl e, t') \<Rightarrow> (Inl e, t') | (Inr x, t') \<Rightarrow> f x t')"

definition reads :: "(trader \<Rightarrow> error + 'a) \<Rightarrow> 'a run" where
  "reads f t = (f t, t)"

definition modify :: "(trader \<Rightarrow> trader) \<Rightarrow> unit run" where
  "modify f t = (Inr (), f t)"

definition emit :: "event \<Rightarrow> unit run" where
  "emit ev t = (Inr (), t\<lparr>trace := trace t @ [ev]\<rparr>)"

definition ask_world :: "(nat \<Rightarrow> 'a) \<Rightarrow> 'a run" where
  "ask_world q t = (Inr (q (ticks t)), t\<lparr>ticks := Suc (ticks t)\<rparr>)"

definition call :: "event \<Rightarrow> (nat \<Rightarrow> error + 'a) \<Rightarrow> 'a run" where
  "call ev q = seq (emit ev) (\<lambda>_. seq (ask_world q) (\<lambda>r. reads (\<lambda>_. r)))"

text \<open>\<open>try: m  except Exception as e: h(e)  else: k(r)\<close>.\<close>

definition try_except_else :: "'a run \<Rightarrow> (error \<Rightarrow> 'b run) \<Rightarrow> ('a \<Rightarrow> 'b run) \<Rightarrow> 'b run" where
  "try_except_else m h k t = (case m t of (Inl e, t') \<Rightarrow> h e t' | (Inr x, t') \<Rightarrow> k x t')"

text \<open>The truth value of an optional string: \<open>None\<close> and \<open>''\<close> are false.\<close>

definition truthy :: "string option \<Rightarrow> bool" where
  "truthy a = (case a of None \<Rightarrow> False | Some x \<Rightarrow> x \<noteq> [])"

definition print_log :: "message \<Rightarrow> unit run" where
  "print_log m t = (if quiet t then emit (Log_info m) t else emit (Print m) t)"

text \<open>\<open>if path: self._write_data(data, path=path)\<close>.\<close>

definition write_data :: "string option \<Rightarrow> written \<Rightarrow> unit run" where
  "write_data path d =
     (case path of
        None \<Rightarrow> ret ()
      | Some f \<Rightarrow> if f = [] then ret () else emit (Write_data f d))"

text \<open>\<open>_sleep\<close>: wait for what is left of \<open>sec\<close> seconds since \<open>last\<close>.\<close>

definition sleep :: "world \<Rightarrow> real \<Rightarrow> real \<Rightarrow> unit run" where
  "sleep w lst sec =
     seq (ask_world (now_at w)) (\<lambda>n.
       (let rest = sec - (n - lst) in if 0 < rest then emit (Sleep rest) else ret ()))"

section \<open>Placing requests\<close>

text \<open>
  \<open>_place_order\<close> first builds \<open>f_args\<close>:
  \<^verbatim>\<open>{'accountID': ..., **kwargs, **{('ALL' if kwargs['instrument'] in self.pos_dict else 'NONE') if closing else dict()}}\<close>.
  The inner braces hold one expression and no colon, so they are a set display with one
  element: the string \<open>'ALL'\<close> or \<open>'NONE'\<close> when closing, else an empty dict. Building a
  set from a dict raises TypeError (a dict is unhashable), and \<open>**\<close> applied to a set
  raises TypeError (a set is not a mapping). This happens before the \<open>try\<close>.
\<close>

datatype element = Str string | Empty_dict

definition closing_element :: "trader \<Rightarrow> bool \<Rightarrow> kwargs \<Rightarrow> error + element" where
  "closing_element t closing kw =
     (if closing then
        (case kw of
           Kw_order _ \<Rightarrow> Inl (KeyError ''instrument'')
         | Kw_instrument i \<Rightarrow>
             Inr (Str (if i \<in> fst ` set (pos_dict t) then ''ALL'' else ''NONE'')))
      else Inr Empty_dict)"

definition set_display :: "element \<Rightarrow> error + string list" where
  "set_display x =
     (case x of
        Empty_dict \<Rightarrow> Inl (TypeError ''unhashable type: dict'')
      | Str v \<Rightarrow> Inr [v])"

definition unpack_set :: "string list \<Rightarrow> error + (string \<times> string) list" where
  "unpack_set xs = Inl (TypeError ''set object is not a mapping'')"

definition f_args_of :: "trader \<Rightarrow> bool \<Rightarrow> kwargs \<Rightarrow> error + f_args" where
  "f_args_of t closing kw =
     (case closing_element t closing kw of Inl e \<Rightarrow> Inl e | Inr x \<Rightarrow>
     (case set_display x of Inl e \<Rightarrow> Inl e | Inr st \<Rightarrow>
     (case unpack_set st of Inl e \<Rightarrow> Inl e | Inr extra \<Rightarrow>
        Inr (account_id t, kw, extra))))"

text \<open>
  The rest of \<open>_place_order\<close>: in dry-run mode the request is only recorded, else it is
  sent; an exception of the broker is logged and written to the order log; a response is
  logged and written, or followed by a sleep of half a second when there is no order log.
  The value \<open>r\<close> is the recorded request exactly in dry-run mode.
\<close>

definition send_request :: "world \<Rightarrow> bool \<Rightarrow> f_args \<Rightarrow> placed run" where
  "send_request w closing fa t =
     (if dry_run t then
        ret (Recorded \<lparr>func = (if closing then ''position.close'' else ''order.create''),
                        args = fa\<rparr>) t
      else if closing then
        seq (call (Api_position_close fa) (\<lambda>n. position_close w n fa)) (\<lambda>b. ret (Sent b)) t
      else
        seq (call (Api_order_create fa) (\<lambda>n. order_create w n fa)) (\<lambda>b. ret (Sent b)) t)"

definition place_order :: "world \<Rightarrow> bool \<Rightarrow> kwargs \<Rightarrow> unit run" where
  "place_order w closing kw =
     seq (reads (\<lambda>t. f_args_of t closing kw)) (\<lambda>fa.
       try_except_else (send_request w closing fa)
         (\<lambda>e. seq (emit (Log_error e))
                (\<lambda>_ t. write_data (order_log_path t) (Written_error e) t))
         (\<lambda>r. case r of
                Recorded q \<Rightarrow> emit (Log_info (Dry_run q))
              | Sent b \<Rightarrow>
                  seq (emit Log_response)
                    (\<lambda>_ t. if truthy (order_log_path t)
                           then write_data (order_log_path t) (Written_body b) t
                           else emit (Sleep (1 / 2)) t)))"

text \<open>
  \<open>expire_positions\<close>: for each entry of the position-time dict, the age is logged and
  a position older than \<open>ttl_sec\<close> is closed.
\<close>

fun expire_items :: "world \<Rightarrow> real \<Rightarrow> ptime dict \<Rightarrow> unit run" where
  "expire_items w ttl [] = ret ()"
| "expire_items w ttl ((i, d) # rest) =
     seq (ask_world (now_at w)) (\<lambda>n.
     seq (emit (Log_info (Elapsed (punits d) (n - ptime d)))) (\<lambda>_.
     seq (if ttl < n - ptime d
          then seq (emit (Log_info (Close_position_units (punits d))))
                 (\<lambda>_. place_order w True (Kw_instrument i))
          else ret ()) (\<lambda>_.
     expire_items w ttl rest)))"

definition expire_positions :: "world \<Rightarrow> real \<Rightarrow> unit run" where
  "expire_positions w ttl t = expire_items w ttl (ptime_dict t) t"

section \<open>Refreshing the snapshot\<close>

text \<open>
  \<open>_refresh_account_dicts\<close>. The position dict takes, for each position of the account
  with trade ids on some side, the first such side of \<open>['long', 'short']\<close>. The loop
  over the new position dict then reads \<open>d[s]['units']\<close> for \<open>s\<close> in the sides, where
  \<open>d\<close> is an entry \<open>{'side': ..., 'units': ...}\<close>: the key \<open>'long'\<close> is missing, so the
  first entry raises KeyError and the rest of the loop body is never reached.
\<close>

definition has_trades :: "account_position \<Rightarrow> bool" where
  "has_trades p = (tradeIDs (p_long p) \<noteq> [] \<or> tradeIDs (p_short p) \<noteq> [])"

definition first_side :: "account_position \<Rightarrow> position" where
  "first_side p =
     (if tradeIDs (p_long p) \<noteq> []
      then \<lparr>side = ''long'', units = py_int (side_units (p_long p))\<rparr>
      else \<lparr>side = ''short'', units = py_int (side_units (p_short p))\<rparr>)"

definition positions_of :: "account_body \<Rightarrow> position dict" where
  "positions_of acc =
     dict_of_items (map (\<lambda>p. (p_instrument p, first_side p)) (filter has_trades (a_positions acc)))"

fun track_positions :: "position dict \<Rightarrow> ptime dict \<Rightarrow> real \<Rightarrow> unit run" where
  "track_positions [] t0 dt_now = ret ()"
| "track_positions ((i, d) # rest) t0 dt_now = raise (KeyError ''long'')"

definition refresh_account_dicts :: "world \<Rightarrow> unit run" where
  "refresh_account_dicts w =
     seq (call Api_account_get (account_get w)) (\<lambda>res.
     seq (emit Log_response) (\<lambda>_.
       (case res of
          None \<Rightarrow> raise (KeyError ''account'')
        | Some acc \<Rightarrow>
            seq (modify (\<lambda>t. t\<lparr>acc_currency := a_currency acc, balance := a_balance acc,
                                  margin_avail := a_marginAvailable acc,
                                  pos_dict := positions_of acc\<rparr>)) (\<lambda>_.
            seq (reads (\<lambda>t. Inr (ptime_dict t))) (\<lambda>t0.
            seq (modify (\<lambda>t. t\<lparr>ptime_dict :=
                                   filter (\<lambda>(i, d). i \<in> fst ` set (pos_dict t)) t0\<rparr>)) (\<lambda>_.
            seq (ask_world (now_at w)) (\<lambda>dt_now.
            (\<lambda>t. track_positions (pos_dict t) t0 dt_now t))))))))"

text \<open>\<open>_refresh_txn_list\<close>: the transactions since the last id, or the whole list.\<close>

definition refresh_txn_list :: "world \<Rightarrow> unit run" where
  "refresh_txn_list w =
     seq (\<lambda>t. (case last_txn_id t of
                  Some l \<Rightarrow>
                    if l \<noteq> [] then call (Api_transaction_since l) (\<lambda>n. transaction_since w n l) t
                    else call Api_transaction_list (transaction_list w) t
                | None \<Rightarrow> call Api_transaction_list (transaction_list w) t)) (\<lambda>res.
     seq (emit Log_response) (\<lambda>_.
       (case res of
          None \<Rightarrow> raise (KeyError ''lastTransactionID'')
        | Some b \<Rightarrow>
            seq (modify (\<lambda>t. t\<lparr>last_txn_id := Some (lastTransactionID b)\<rparr>)) (\<lambda>_.
              if transactions b \<noteq> [] then
                seq (print_log (Transactions (transactions b))) (\<lambda>_.
                seq (modify (\<lambda>t. t\<lparr>txn_list := txn_list t @ transactions b\<rparr>)) (\<lambda>_ t.
                  write_data (txn_log_path t) (Written_txns (transactions b)) t))
              else ret ()))))"

definition refresh_inst_dict :: "world \<Rightarrow> unit run" where
  "refresh_inst_dict w =
     seq (call Api_account_instruments (account_instruments w)) (\<lambda>res.
     seq (emit Log_response) (\<lambda>_.
       (case res of
          None \<Rightarrow> raise (KeyError ''instruments'')
        | Some cs \<Rightarrow> modify (\<lambda>t. t\<lparr>inst_dict := dict_of_items cs\<rparr>))))"

definition refresh_rate_dict :: "world \<Rightarrow> unit run" where
  "refresh_rate_dict w =
     seq (\<lambda>t. call (Api_pricing_get (map fst (inst_dict t)))
                (\<lambda>n. pricing_get w n (map fst (inst_dict t))) t) (\<lambda>res.
     seq (emit Log_response) (\<lambda>_.
       (case res of
          None \<Rightarrow> raise (KeyError ''prices'')
        | Some ps \<Rightarrow>
            modify (\<lambda>t. t\<lparr>rate_dict :=
              dict_of_items (map (\<lambda>p. (pr_instrument p,
                                         \<lparr>rbid = closeoutBid p, rask = closeoutAsk p\<rparr>)) ps)\<rparr>))))"

text \<open>
  \<open>_calculate_bp_value\<close>: the value of one unit in the account currency, directly,
  inverted, or through the first instrument that pairs the quote currency with the
  account currency.
\<close>

definition ask_of :: "trader \<Rightarrow> string \<Rightarrow> error + real" where
  "ask_of t i = (case getitem (rate_dict t) i of Inl e \<Rightarrow> Inl e | Inr r \<Rightarrow> Inr (rask r))"

definition inverse_ask_of :: "trader \<Rightarrow> string \<Rightarrow> error + real" where
  "inverse_ask_of t i = (case ask_of t i of Inl e \<Rightarrow> Inl e | Inr a \<Rightarrow> py_div 1 a)"

definition calculate_bp_value :: "trader \<Rightarrow> string \<Rightarrow> error + real" where
  "calculate_bp_value t i =
     (let cur_pair = split_on (CHR ''_'') i in
      (case index cur_pair 0 of Inl e \<Rightarrow> Inl e | Inr base \<Rightarrow>
       if base = acc_currency t then inverse_ask_of t i
       else
      (case index cur_pair 1 of Inl e \<Rightarrow> Inl e | Inr quote \<Rightarrow>
       if quote = acc_currency t then ask_of t i
       else
      (case index (filter (\<lambda>k. set (split_on (CHR ''_'') k) = {quote, acc_currency t})
                     (map fst (inst_dict t))) 0 of Inl e \<Rightarrow> Inl e | Inr inst_bpv \<Rightarrow>
      (case ask_of t i of Inl e \<Rightarrow> Inl e | Inr a \<Rightarrow>
      (case index (split_on (CHR ''_'') inst_bpv) 1 of Inl e \<Rightarrow> Inl e | Inr q \<Rightarrow>
      (case (if q = acc_currency t then ask_of t inst_bpv else inverse_ask_of t inst_bpv) of
         Inl e \<Rightarrow> Inl e
       | Inr f \<Rightarrow> Inr (a * f))))))))"

text \<open>\<open>_refresh_unit_costs\<close>: value of a unit times the margin rate, for the traded instruments.\<close>

fun unit_cost_items :: "trader \<Rightarrow> instrument_info dict \<Rightarrow> error + real dict" where
  "unit_cost_items t [] = Inr []"
| "unit_cost_items t ((i, c) # rest) =
     (if i \<in> set (instruments t) then
        (case calculate_bp_value t i of Inl e \<Rightarrow> Inl e | Inr v \<Rightarrow>
        (case unit_cost_items t rest of Inl e \<Rightarrow> Inl e | Inr xs \<Rightarrow>
           Inr ((i, v * marginRate c) # xs)))
      else unit_cost_items t rest)"

definition refresh_unit_costs :: "unit run" where
  "refresh_unit_costs =
     seq (reads (\<lambda>t. unit_cost_items t (inst_dict t)))
       (\<lambda>cs. modify (\<lambda>t. t\<lparr>unit_costs := cs\<rparr>))"

text \<open>
  \<open>refresh_oanda_dicts\<close>: account, transactions, instruments, rates, with the second,
  third and fourth call not before 0.5, 1 and 1.5 seconds after the start, then the
  unit costs.
\<close>

definition refresh_oanda_dicts :: "world \<Rightarrow> unit run" where
  "refresh_oanda_dicts w =
     seq (ask_world (now_at w)) (\<lambda>t0.
     seq (refresh_account_dicts w) (\<lambda>_.
     seq (sleep w t0 (1 / 2)) (\<lambda>_.
     seq (refresh_txn_list w) (\<lambda>_.
     seq (sleep w t0 1) (\<lambda>_.
     seq (refresh_inst_dict w) (\<lambda>_.
     seq (sleep w t0 (3 / 2)) (\<lambda>_.
     seq (refresh_rate_dict w) (\<lambda>_.
     refresh_unit_costs))))))))"

section \<open>Designing and placing an order\<close>

text \<open>
  \<open>_design_order_limits\<close>: take-profit and stop-loss prices and the trailing-stop
  distance, clamped to the instrument's bounds. The rounding of the prices to half
  precision is not modelled.
\<close>

definition side_price :: "rate \<Rightarrow> string \<Rightarrow> error + real" where
  "side_price r s =
     (if s = ''long'' then Inr (rask r) else if s = ''short'' then Inr (rbid r)
      else Inl (KeyError s))"

definition design_order_limits :: "'a snapshot_scheme \<Rightarrow> string \<Rightarrow> string \<Rightarrow> error + limits" where
  "design_order_limits t i s =
     (case getitem (inst_dict t) i of Inl e \<Rightarrow> Inl e | Inr ie \<Rightarrow>
     (case getitem (rate_dict t) i of Inl e \<Rightarrow> Inl e | Inr rt \<Rightarrow>
     (case side_price rt s of Inl e \<Rightarrow> Inl e | Inr r \<Rightarrow>
     (let ts_in_cf = py_int (trailing_stop (cf t) * r / (10 powr pipLocation ie));
          ts = min (max (real_of_int ts_in_cf) (minimumTrailingStopDistance ie))
                 (maximumTrailingStopDistance ie);
          tp = r + r * take_profit (cf t) * (if s = ''long'' then 1 else - 1);
          sl = r + r * stop_loss (cf t) * (if s = ''long'' then - 1 else 1)
      in Inr \<lparr>takeProfitOnFill = tp, stopLossOnFill = sl, trailingStopLossOnFill = ts\<rparr>))))"

text \<open>
  \<open>design_and_place_order\<close>: when an action is given and the instrument has a position
  that the action closes or opposes, the position is closed and the transaction list is
  read again; then a long or short action opens an order.
\<close>

definition must_close :: "string option \<Rightarrow> position option \<Rightarrow> bool" where
  "must_close a pos =
     (case pos of
        None \<Rightarrow> False
      | Some p \<Rightarrow> truthy a \<and> (a = Some ''closing'' \<or> a \<noteq> Some (side p)))"

definition open_order :: "world \<Rightarrow> betting \<Rightarrow> string \<Rightarrow> string \<Rightarrow> unit run" where
  "open_order w bs i s =
     seq (reads (\<lambda>t. design_order_limits t i s)) (\<lambda>lim.
     seq (reads (\<lambda>t. design_order_units bs t i s)) (\<lambda>u.
     seq (emit (Log_info (Open_order s))) (\<lambda>_.
     place_order w False (Kw_order \<lparr>o_instrument = i, o_units = u, o_limits = lim\<rparr>))))"

definition design_and_place_order :: "world \<Rightarrow> betting \<Rightarrow> string \<Rightarrow> string option \<Rightarrow> unit run" where
  "design_and_place_order w bs i a =
     seq (reads (\<lambda>t. Inr (map_of (pos_dict t) i))) (\<lambda>pos.
     seq (if must_close a pos then
            seq (emit (Log_info (Close_position_side (case pos of Some p \<Rightarrow> side p | None \<Rightarrow> []))))
              (\<lambda>_. seq (place_order w True (Kw_instrument i)) (\<lambda>_. refresh_txn_list w))
          else ret ()) (\<lambda>_.
       (case a of
          None \<Rightarrow> ret ()
        | Some s \<Rightarrow> if s = ''long'' \<or> s = ''short'' then open_order w bs i s else ret ())))"

section \<open>The control loop\<close>

text \<open>
  \<open>invoke\<close>. The abstract methods \<open>check_health\<close> and \<open>make_decision\<close> are arguments;
  each call of one is an event. One cycle is the body of the \<open>while\<close> loop; the loop
  itself may run forever, so it is given a bound on the number of cycles and returns
  whether it ended because the health check failed.
\<close>

fun for_instruments :: "world \<Rightarrow> (string \<Rightarrow> unit run) \<Rightarrow> string list \<Rightarrow> unit run" where
  "for_instruments w make_decision [] = ret ()"
| "for_instruments w make_decision (i # rest) =
     seq (refresh_oanda_dicts w) (\<lambda>_.
     seq (emit (Call_make_decision i)) (\<lambda>_.
     seq (make_decision i) (\<lambda>_.
     for_instruments w make_decision rest)))"

definition cycle :: "world \<Rightarrow> (string \<Rightarrow> unit run) \<Rightarrow> unit run" where
  "cycle w make_decision =
     seq (\<lambda>t. expire_positions w (ttl_sec (cf t)) t) (\<lambda>_ t.
       for_instruments w make_decision (instruments t) t)"

fun cycles :: "world \<Rightarrow> bool run \<Rightarrow> (string \<Rightarrow> unit run) \<Rightarrow> nat \<Rightarrow> bool run" where
  "cycles w check_health make_decision 0 = ret False"
| "cycles w check_health make_decision (Suc n) =
     seq (emit Call_check_health) (\<lambda>_.
     seq check_health (\<lambda>ok.
       if ok then seq (cycle w make_decision) (\<lambda>_. cycles w check_health make_decision n)
       else ret True))"

definition invoke :: "world \<Rightarrow> bool run \<Rightarrow> (string \<Rightarrow> unit run) \<Rightarrow> nat \<Rightarrow> bool run" where
  "invoke w check_health make_decision n =
     seq (print_log Open_deals) (\<lambda>_. cycles w check_health make_decision n)"

section \<open>The shape of a trace\<close>





section \<open>Example data\<close>

text \<open>Concrete inputs on which the properties below are evaluated.\<close>

definition eur_usd :: instrument_info where
  "eur_usd = \<lparr>tradeable = True, marginRate = 1 / 25, maximumOrderUnits = 1000,
     pipLocation = - 4, minimumTrailingStopDistance = 5 / 10000,
     maximumTrailingStopDistance = 1\<rparr>"

definition cf0 :: config where
  "cf0 = \<lparr>preserve = 1 / 20, unit_ratio = 1 / 100, init_ratio = 1 / 2,
     max_spread = 1 / 1000, trailing_stop = 1 / 100, take_profit = 1 / 100,
     stop_loss = 1 / 100, ttl_sec = 3600, alpha = 1 / 10, sigma_band = 1\<rparr>"

text \<open>
  A flat snapshot with balance 100, available margin 15.5, a unit cost of 1 and no
  transactions.
\<close>

definition snap0 :: snapshot where
  "snap0 = \<lparr>cf = cf0, pos_dict = [], balance = 100, margin_avail = 31 / 2,
     inst_dict = [(''EUR_USD'', eur_usd)],
     rate_dict = [(''EUR_USD'', \<lparr>rbid = 9999 / 10000, rask = 10001 / 10000\<rparr>)],
     unit_costs = [(''EUR_USD'', 1)], txn_list = []\<rparr>"

definition long100 :: position where
  "long100 = \<lparr>side = ''long'', units = 100\<rparr>"

text \<open>A betting system that always bets the initial size.\<close>

definition bet_init :: betting where
  "bet_init unit_size init_size inst_txns = Inr init_size"

text \<open>A detector result with the given action, and a one-row rate frame.\<close>

definition sig_of :: "string option \<Rightarrow> signal" where
  "sig_of a = \<lparr>sig_act = a, sig_ewma = Some 0, sig_ewmbbl = Some 0, sig_ewmbbu = Some 0\<rparr>"

definition row :: "real \<Rightarrow> real \<Rightarrow> rate_row" where
  "row b a = \<lparr>instrument = ''EUR_USD'', bid = b, ask = a\<rparr>"

text \<open>Library calls that return the given mean and standard deviation for every series.\<close>

definition fixed_stats :: "fl \<Rightarrow> fl \<Rightarrow> (unit, unit) ewma_deps" where
  "fixed_stats m s = \<lparr>extract_best_feature = (\<lambda>h. Inr ()), ewm_mean_last = (\<lambda>a x. Inr m),
     ewm_std_last = (\<lambda>a x. Inr s)\<rparr>"

text \<open>
  A world whose clock stands still and whose broker always answers: an account in USD
  with no open position, no new transactions, one instrument and its price.
\<close>

definition account0 :: account_body where
  "account0 = \<lparr>a_balance = 10000, a_marginAvailable = 8000, a_currency = ''USD'',
     a_positions = []\<rparr>"

definition world0 :: world where
  "world0 = \<lparr>now_at = (\<lambda>n. 0),
     account_get = (\<lambda>n. Inr (Some account0)),
     transaction_since = (\<lambda>n l. Inr (Some \<lparr>lastTransactionID = l, transactions = []\<rparr>)),
     transaction_list = (\<lambda>n. Inr (Some \<lparr>lastTransactionID = ''7'', transactions = []\<rparr>)),
     account_instruments = (\<lambda>n. Inr (Some [(''EUR_USD'', eur_usd)])),
     pricing_get = (\<lambda>n ks. Inr (Some (map (\<lambda>k. \<lparr>pr_instrument = k,
                      closeoutBid = 9999 / 10000, closeoutAsk = 10001 / 10000\<rparr>) ks))),
     position_close = (\<lambda>n fa. Inr ''{}''),
     order_create = (\<lambda>n fa. Inr ''{}'')\<rparr>"

text \<open>A trader for one instrument before its first refresh, and one holding a long position.\<close>

definition trader0 :: trader where
  "trader0 = \<lparr>cf = cf0, pos_dict = [], balance = 0, margin_avail = 0, inst_dict = [],
     rate_dict = [], unit_costs = [], txn_list = [],
     account_id = ''001'', instruments = [''EUR_USD''], quiet = False, dry_run = False,
     order_log_path = None, txn_log_path = None, last_txn_id = None, acc_currency = [],
     ptime_dict = [], trace = [], ticks = 0\<rparr>"

definition trader_long :: trader where
  "trader_long = trader0\<lparr>pos_dict := [(''EUR_USD'', long100)], balance := 10000,
     margin_avail := 8000, inst_dict := [(''EUR_USD'', eur_usd)],
     rate_dict := [(''EUR_USD'', \<lparr>rbid = 9999 / 10000, rask = 10001 / 10000\<rparr>)],
     unit_costs := [(''EUR_USD'', 10001 / 250000)], acc_currency := ''USD''\<rparr>"


definition order0 :: order where
  "order0 = \<lparr>o_instrument = ''EUR_USD'', o_units = 1,
     o_limits = \<lparr>takeProfitOnFill = 1, stopLossOnFill = 1, trailingStopLossOnFill = 1\<rparr>\<rparr>"

section \<open>Arithmetic of truncation\<close>

lemma py_int_nonneg: "0 \<le> y \<Longrightarrow> 0 \<le> py_int y"
  by (simp add: py_int_def)

lemma py_int_le_self: "0 \<le> y \<Longrightarrow> real_of_int (py_int y) \<le> y"
  by (simp add: py_int_def)

lemma py_int_floor_mono: "0 \<le> x \<Longrightarrow> x \<le> y \<Longrightarrow> py_int x \<le> py_int y"
  by (simp add: py_int_def floor_mono)

lemma py_int_pos: "0 \<le> x \<Longrightarrow> \<bar>py_int (x * 1)\<bar> = py_int x"
  by (simp add: py_int_def)

lemma py_int_neg: "0 \<le> x \<Longrightarrow> \<bar>py_int (x * (- 1))\<bar> = py_int x"
proof -
  assume a: "0 \<le> x"
  have "\<lceil>- x\<rceil> = - \<lfloor>x\<rfloor>" by (simp add: ceiling_def)
  moreover have "0 \<le> \<lfloor>x\<rfloor>" using a by simp
  ultimately show ?thesis using a by (auto simp: py_int_def)
qed

section \<open>The decision table\<close>

text \<open>
  Where the reads before the table succeed, \<open>determine_sig_state\<close> returns one decision,
  given by the first rule that applies: trading halted, closing signal, no funds, lack
  of margin, over-spread, then the long and short signals against the position.
\<close>

lemma determine_sig_state_priority:
  assumes "df_rate \<noteq> []" and "i = instrument (last df_rate)"
    and "pos_pct_of t i = Inr pct"
    and "ai (map_of (pos_dict t) i) = Inr sg"
    and "map_of (inst_dict t) i = Some ie"
    and "is_over_spread t df_rate = Inr over"
  shows "\<exists>d. determine_sig_state t ai df_rate = Inr d \<and> dsig d = sg \<and>
    (if \<not> tradeable ie then act d = None \<and> state d = Label ''TRADING HALTED''
     else if sig_act sg = Some ''closing''
       then act d = Some ''closing'' \<and> state d = Label ''CLOSING''
     else if py_int (balance t) = 0 then act d = None \<and> state d = Label ''NO FUND''
     else if is_margin_lack t i then act d = None \<and> state d = Label ''LACK OF FUNDS''
     else if over then act d = None \<and> state d = Label ''OVER-SPREAD''
     else if sig_act sg = Some ''long''
       then act d = (if pos_is (map_of (pos_dict t) i) ''long'' then None else Some ''long'')
     else if sig_act sg = Some ''short''
       then act d = (if pos_is (map_of (pos_dict t) i) ''short'' then None else Some ''short'')
     else act d = None)"
  using assms by (simp add: determine_sig_state_def getitem_def Let_def)

text \<open>
  The reads before the table succeed exactly when the instrument is flat or the balance
  is not zero (for an instrument known to the snapshot and a detector that returns).
\<close>

lemma determine_sig_state_returns_iff:
  assumes "df_rate \<noteq> []" and "i = instrument (last df_rate)"
    and "map_of (unit_costs t) i \<noteq> None" and "map_of (inst_dict t) i \<noteq> None"
    and "ai (map_of (pos_dict t) i) = Inr sg"
  shows "(\<exists>d. determine_sig_state t ai df_rate = Inr d) \<longleftrightarrow>
         (map_of (pos_dict t) i = None \<or> balance t \<noteq> 0)"
  using assms
  by (auto simp: determine_sig_state_def pos_pct_of_def getitem_def py_div_def Let_def
      is_over_spread_def split: option.splits if_splits)

text \<open>
  C1. With an open long position and a balance of exactly zero the no-funds rule should
  hold the instrument; \<open>determine_sig_state\<close> raises ZeroDivisionError instead, in the
  holding percentage that is computed before the table is entered.
\<close>

theorem determine_sig_state_zero_balance:
  "determine_sig_state (snap0\<lparr>pos_dict := [(''EUR_USD'', long100)], balance := 0\<rparr>)
     (\<lambda>p. Inr (sig_of None)) [row (9999 / 10000) (10001 / 10000)] = Inl ZeroDivisionError"
  by (simp add: determine_sig_state_def snap0_def pos_pct_of_def getitem_def py_div_def row_def)







section \<open>Order sizing\<close>

lemma avail_size_bound:
  assumes "0 < c" and "avail_size_of t c = Inr a"
  shows "0 \<le> a" and "a * c < max (margin_avail t - balance t * preserve (cf t)) 0 + c"
proof -
  let ?h = "margin_avail t - balance t * preserve (cf t)"
  from assms have a: "a = max (real_of_int \<lceil>?h / c\<rceil>) 0"
    by (auto simp: avail_size_of_def py_div_def split: if_splits)
  show "0 \<le> a" by (simp add: a)
  show "a * c < max ?h 0 + c"
  proof (cases "0 < ?h")
    case True
    have "real_of_int \<lceil>?h / c\<rceil> < ?h / c + 1" by linarith
    then have "real_of_int \<lceil>?h / c\<rceil> * c < (?h / c + 1) * c"
      using assms(1) by (simp only: mult_less_cancel_right_pos)
    also have "\<dots> = ?h + c" using assms(1) by (simp add: field_simps)
    finally have "real_of_int \<lceil>?h / c\<rceil> * c < ?h + c" .
    moreover have "0 < ?h / c" using True assms(1) by simp
    then have "0 < \<lceil>?h / c\<rceil>" by (simp add: less_ceiling_iff)
    then have "a = real_of_int \<lceil>?h / c\<rceil>" by (simp add: a)
    moreover have "max ?h 0 = ?h" using True by simp
    ultimately show ?thesis by (simp only:)
  next
    case False
    then have "?h / c \<le> 0" using assms(1) by (simp add: divide_le_0_iff)
    then have "\<lceil>?h / c\<rceil> \<le> 0" by (simp add: ceiling_le_zero)
    then have "a = 0" by (simp add: a max_def)
    then show ?thesis using False assms(1) by simp
  qed
qed

text \<open>
  On a known instrument with a non-zero unit cost, a valid side and a betting system
  that returns \<open>b\<close>, the order size is \<open>min(b, avail_size, max_size)\<close> truncated, with
  the sign of the side.
\<close>

lemma design_order_units_value:
  assumes "map_of (inst_dict t) i = Some ie"
    and "map_of (unit_costs t) i = Some c" and "c \<noteq> 0"
    and "s = ''long'' \<or> s = ''short''"
    and "bet_size_of bs t i c = Inr b"
  shows "\<exists>a. avail_size_of t c = Inr a \<and>
           design_order_units bs t i s =
             Inr (py_int (min b (min a (real_of_int (py_int (maximumOrderUnits ie))))
                    * (if s = ''long'' then 1 else - 1)))"
  using assms
  by (auto simp: design_order_units_def getitem_def avail_size_of_def py_div_def
      side_sign_def Let_def)

lemma design_order_units_abs:
  assumes inst: "map_of (inst_dict t) i = Some ie"
    and cost: "map_of (unit_costs t) i = Some c" "c \<noteq> 0"
    and maxu: "0 \<le> maximumOrderUnits ie"
    and sd: "s = ''long'' \<or> s = ''short''"
    and bet: "bet_size_of bs t i c = Inr b" "0 \<le> b"
  shows "\<exists>a u. avail_size_of t c = Inr a \<and> design_order_units bs t i s = Inr u \<and>
           \<bar>u\<bar> = py_int (min b (min a (real_of_int (py_int (maximumOrderUnits ie)))))"
proof -
  from design_order_units_value[where bs=bs, OF inst cost sd bet(1)]
  obtain a where a: "avail_size_of t c = Inr a"
    and u: "design_order_units bs t i s =
             Inr (py_int (min b (min a (real_of_int (py_int (maximumOrderUnits ie))))
                    * (if s = ''long'' then 1 else - 1)))" by blast
  let ?m = "min b (min a (real_of_int (py_int (maximumOrderUnits ie))))"
  have a0: "0 \<le> a" using a by (auto simp: avail_size_of_def py_div_def split: if_splits)
  have "0 \<le> py_int (maximumOrderUnits ie)" using maxu by (rule py_int_nonneg)
  then have m0: "0 \<le> ?m" using a0 bet(2) by simp
  have "\<bar>py_int (?m * (if s = ''long'' then 1 else - 1))\<bar> = py_int ?m"
    using py_int_pos[OF m0] py_int_neg[OF m0] by (cases "s = ''long''") simp_all
  with a u show ?thesis by simp
qed




text \<open>
  C3 as stated fails in its first half: with an available margin of 100 and a preserve
  ratio of one half, a balance of 100 gives an order of 50 units and a balance of 200
  gives none, since the reserve grows with the balance.
\<close>

theorem design_order_units_not_monotone:
  "design_order_units bet_init
     (snap0\<lparr>cf := cf0\<lparr>preserve := 1 / 2\<rparr>, margin_avail := 100, balance := 100\<rparr>)
     ''EUR_USD'' ''long'' = Inr 50 \<and>
   design_order_units bet_init
     (snap0\<lparr>cf := cf0\<lparr>preserve := 1 / 2\<rparr>, margin_avail := 100, balance := 200\<rparr>)
     ''EUR_USD'' ''long'' = Inr 0"
  by (simp add: design_order_units_def snap0_def cf0_def eur_usd_def getitem_def
      avail_size_of_def bet_size_of_def py_div_def side_sign_def bet_init_def py_int_def Let_def)

text \<open>
  C3, amended. On a known instrument with a positive unit cost and a non-negative
  maximum, with non-negative unit and init ratios and balance, and a betting system that
  returns a non-negative size for non-negative base sizes and is monotone in them, the
  absolute order size is at most \<open>maximumOrderUnits\<close>; and when the preserve ratio is
  zero it does not decrease when the balance grows.
\<close>

theorem design_order_units_max_and_mono:
  assumes inst: "map_of (inst_dict t) i = Some ie"
    and cost: "map_of (unit_costs t) i = Some c" "0 < c"
    and maxu: "0 \<le> maximumOrderUnits ie"
    and sd: "s = ''long'' \<or> s = ''short''"
    and bal: "0 \<le> balance t"
    and ratios: "0 \<le> unit_ratio (cf t)" "0 \<le> init_ratio (cf t)"
    and bet: "\<forall>x y l. 0 \<le> x \<longrightarrow> 0 \<le> y \<longrightarrow> (\<exists>b. bs x y l = Inr b \<and> 0 \<le> b)"
    and mono: "\<forall>x y x' y' l b b'. x \<le> x' \<longrightarrow> y \<le> y' \<longrightarrow>
                 bs x y l = Inr b \<longrightarrow> bs x' y' l = Inr b' \<longrightarrow> b \<le> b'"
  shows "\<exists>u. design_order_units bs t i s = Inr u \<and>
           real_of_int \<bar>u\<bar> \<le> maximumOrderUnits ie \<and>
           (preserve (cf t) = 0 \<longrightarrow>
              (\<forall>b2. balance t \<le> b2 \<longrightarrow>
                 (\<exists>u2. design_order_units bs (t\<lparr>balance := b2\<rparr>) i s = Inr u2 \<and>
                       \<bar>u\<bar> \<le> \<bar>u2\<bar>)))"
proof -
  let ?M = "real_of_int (py_int (maximumOrderUnits ie))"
  let ?x = "\<lambda>bal. real_of_int \<lceil>bal * unit_ratio (cf t) / c\<rceil>"
  let ?y = "\<lambda>bal. real_of_int \<lceil>bal * init_ratio (cf t) / c\<rceil>"
  let ?l = "filter (\<lambda>x. tinstrument x = i) (txn_list t)"
  have c0: "c \<noteq> 0" using cost(2) by simp
  have M0: "0 \<le> ?M" using maxu by (simp add: py_int_nonneg)
  have Mle: "?M \<le> maximumOrderUnits ie" using maxu by (rule py_int_le_self)
  have sizes0: "0 \<le> ?x v \<and> 0 \<le> ?y v" if "0 \<le> v" for v
  proof -
    have "0 \<le> v * unit_ratio (cf t) / c" "0 \<le> v * init_ratio (cf t) / c"
      using that ratios cost(2) by simp_all
    then have "0 \<le> \<lceil>v * unit_ratio (cf t) / c\<rceil>" "0 \<le> \<lceil>v * init_ratio (cf t) / c\<rceil>"
      by (smt (verit) ceiling_mono ceiling_zero)+
    then show ?thesis by simp
  qed
  from bet sizes0[OF bal]
  obtain b where b: "bs (?x (balance t)) (?y (balance t)) ?l = Inr b" "0 \<le> b"
    by blast
  have bet1: "bet_size_of bs t i c = Inr b" using b(1) by (simp add: bet_size_of_def)
  from design_order_units_abs[where bs=bs, OF inst cost(1) c0 maxu sd bet1 b(2)]
  obtain a u where a: "avail_size_of t c = Inr a" and u: "design_order_units bs t i s = Inr u"
    and abs: "\<bar>u\<bar> = py_int (min b (min a ?M))"
    by blast
  have a0: "0 \<le> a" by (rule avail_size_bound(1)[OF cost(2) a])
  have m0: "0 \<le> min b (min a ?M)" using a0 b(2) M0 by simp
  have "real_of_int \<bar>u\<bar> \<le> min b (min a ?M)" unfolding abs by (rule py_int_le_self[OF m0])
  also have "\<dots> \<le> ?M" by simp
  finally have bound: "real_of_int \<bar>u\<bar> \<le> maximumOrderUnits ie" using Mle by simp
  have mono_part:
    "\<exists>u2. design_order_units bs (t\<lparr>balance := b2\<rparr>) i s = Inr u2 \<and> \<bar>u\<bar> \<le> \<bar>u2\<bar>"
    if p0: "preserve (cf t) = 0" and le: "balance t \<le> b2" for b2
  proof -
    let ?t2 = "t\<lparr>balance := b2\<rparr>"
    have b20: "0 \<le> b2" using bal le by simp
    from bet sizes0[OF b20]
    obtain b' where b': "bs (?x b2) (?y b2) ?l = Inr b'" "0 \<le> b'" by blast
    have inst2: "map_of (inst_dict ?t2) i = Some ie" using inst by simp
    have cost2: "map_of (unit_costs ?t2) i = Some c" using cost(1) by simp
    have bet2: "bet_size_of bs ?t2 i c = Inr b'" using b'(1) by (simp add: bet_size_of_def)
    from design_order_units_abs[where bs=bs, OF inst2 cost2 c0 maxu sd bet2 b'(2)]
    obtain a2 u2 where a2: "avail_size_of ?t2 c = Inr a2"
      and u2: "design_order_units bs ?t2 i s = Inr u2"
      and abs2: "\<bar>u2\<bar> = py_int (min b' (min a2 ?M))"
      by blast
    have "avail_size_of ?t2 c = avail_size_of t c" using p0 by (simp add: avail_size_of_def)
    with a a2 have aa: "a2 = a" by simp
    have "balance t * unit_ratio (cf t) / c \<le> b2 * unit_ratio (cf t) / c"
      using le ratios(1) cost(2) by (simp add: divide_right_mono mult_right_mono)
    then have x: "?x (balance t) \<le> ?x b2" by (simp add: ceiling_mono)
    have "balance t * init_ratio (cf t) / c \<le> b2 * init_ratio (cf t) / c"
      using le ratios(2) cost(2) by (simp add: divide_right_mono mult_right_mono)
    then have y: "?y (balance t) \<le> ?y b2" by (simp add: ceiling_mono)
    from mono x y b(1) b'(1) have "b \<le> b'" by blast
    then have "min b (min a ?M) \<le> min b' (min a2 ?M)" unfolding aa
      by (rule min.mono) simp
    then have "py_int (min b (min a ?M)) \<le> py_int (min b' (min a2 ?M))"
      by (rule py_int_floor_mono[OF m0])
    with abs abs2 u2 show ?thesis by simp
  qed
  show ?thesis using u bound mono_part by blast
qed

text \<open>
  C3, witness: without a reserve the order at balance 100 is at most 1000 units and no
  larger than the order at any greater balance.
\<close>

theorem design_order_units_max_and_mono_witness:
  "\<exists>u. design_order_units bet_init (snap0\<lparr>cf := cf0\<lparr>preserve := 0\<rparr>\<rparr>) ''EUR_USD'' ''long'' = Inr u \<and>
     real_of_int \<bar>u\<bar> \<le> 1000 \<and>
     (\<forall>b2. 100 \<le> b2 \<longrightarrow>
        (\<exists>u2. design_order_units bet_init (snap0\<lparr>cf := cf0\<lparr>preserve := 0\<rparr>, balance := b2\<rparr>)
                 ''EUR_USD'' ''long'' = Inr u2 \<and> \<bar>u\<bar> \<le> \<bar>u2\<bar>))"
proof -
  let ?t = "snap0\<lparr>cf := cf0\<lparr>preserve := 0\<rparr>\<rparr>"
  have inst: "map_of (inst_dict ?t) ''EUR_USD'' = Some eur_usd" by (simp add: snap0_def)
  have cost: "map_of (unit_costs ?t) ''EUR_USD'' = Some 1" by (simp add: snap0_def)
  have c1: "(0::real) < 1" by simp
  have maxu: "0 \<le> maximumOrderUnits eur_usd" by (simp add: eur_usd_def)
  have sd: "''long'' = ''long'' \<or> ''long'' = ''short''" by simp
  have bal: "0 \<le> balance ?t" by (simp add: snap0_def)
  have r1: "0 \<le> unit_ratio (cf ?t)" by (simp add: cf0_def)
  have r2: "0 \<le> init_ratio (cf ?t)" by (simp add: cf0_def)
  have bet: "\<forall>x y l. 0 \<le> x \<longrightarrow> 0 \<le> y \<longrightarrow> (\<exists>b. bet_init x y l = Inr b \<and> 0 \<le> b)"
    by (simp add: bet_init_def)
  have mono: "\<forall>x y x' y' l b b'. x \<le> x' \<longrightarrow> y \<le> y' \<longrightarrow>
                 bet_init x y l = Inr b \<longrightarrow> bet_init x' y' l = Inr b' \<longrightarrow> b \<le> b'"
    by (simp add: bet_init_def)
  have pres: "preserve (cf ?t) = 0" by simp
  have b100: "balance ?t = 100" by (simp add: snap0_def)
  have mx: "maximumOrderUnits eur_usd = 1000" by (simp add: eur_usd_def)
  from design_order_units_max_and_mono
    [where bs = bet_init, OF inst cost c1 maxu sd bal r1 r2 bet mono]
  show ?thesis unfolding pres b100 mx by simp
qed

section \<open>The EWMA signal detector\<close>




text \<open>
  C4 as stated fails: with an open long position and a band from -2.5 to -1.5, which
  opposes the position and does not straddle zero, the detector returns the action
  short, not closing.
\<close>

theorem detect_signal_never_closing_example:
  "detect_signal (fixed_stats (Some (- 2)) (Some (1 / 2))) cf0 () (Some long100) False =
     Inr \<lparr>sig_act = Some ''short'', sig_ewma = Some (- 2), sig_ewmbbl = Some (- 5 / 2),
          sig_ewmbbu = Some (- 3 / 2)\<rparr>"
  by (simp add: detect_signal_def ewm_stats_def fixed_stats_def cf0_def fl_mul_def fl_add_def
      fl_neg0_def fl_pos0_def)

text \<open>
  C4, amended. The detector does not read the open position: its result is the same
  with and without one. Its action is never closing; it is none exactly when neither the
  upper bound of the band is below zero nor the lower bound above zero, and otherwise
  it is the side of the mean (flipped when \<open>contrary\<close> is set), also when an open
  position opposes it.
\<close>

theorem detect_signal_ignores_position:
  "detect_signal lib c h pos contrary = detect_signal lib c h None contrary \<and>
   (\<forall>sg. detect_signal lib c h pos contrary = Inr sg \<longrightarrow>
      sig_act sg \<noteq> Some ''closing'' \<and>
      (sig_act sg = None \<longleftrightarrow> \<not> fl_neg0 (sig_ewmbbu sg) \<and> \<not> fl_pos0 (sig_ewmbbl sg)) \<and>
      (sig_act sg \<noteq> None \<longrightarrow>
         sig_act sg = Some (if fl_neg0 (fl_mul (sig_ewma sg) (Some (if contrary then - 1 else 1)))
                            then ''short'' else ''long'')))"
  by (auto simp: detect_signal_def Let_def split: sum.splits prod.splits)

text \<open>
  C4, witness: the example above (long position, band below zero), and a band from
  -0.5 to 0.5 on the same position, which gives no action.
\<close>

theorem detect_signal_ignores_position_witness:
  "detect_signal (fixed_stats (Some (- 2)) (Some (1 / 2))) cf0 () (Some long100) False =
     detect_signal (fixed_stats (Some (- 2)) (Some (1 / 2))) cf0 () None False \<and>
   (\<exists>sg. detect_signal (fixed_stats (Some (- 2)) (Some (1 / 2))) cf0 () (Some long100) False = Inr sg \<and>
      sig_act sg = Some ''short'' \<and> sig_act sg \<noteq> Some ''closing'') \<and>
   (\<exists>sg. detect_signal (fixed_stats (Some 0) (Some (1 / 2))) cf0 () (Some long100) False = Inr sg \<and>
      sig_act sg = None)"
  using detect_signal_ignores_position
    [of "fixed_stats (Some (- 2)) (Some (1 / 2))" cf0 "()" "Some long100" False]
  by (simp add: detect_signal_def ewm_stats_def fixed_stats_def cf0_def fl_mul_def fl_add_def
      fl_neg0_def fl_pos0_def)


section \<open>Placing requests\<close>

lemma f_args_of_raises: "\<exists>e. f_args_of t closing kw = Inl e"
  by (auto simp: f_args_of_def closing_element_def set_display_def unpack_set_def
      split: kwargs.splits sum.splits element.splits)

text \<open>
  Every call of \<open>_place_order\<close> raises while building \<open>f_args\<close>: nothing is sent,
  recorded or logged, and the trader is left as it was.
\<close>

lemma place_order_raises: "\<exists>e. place_order w closing kw t = (Inl e, t)"
  using f_args_of_raises[of t closing kw]
  by (auto simp: place_order_def seq_def reads_def)

section \<open>The events of a refresh\<close>

lemma seq_Inr:
  "seq m f t = (Inr y, t') \<Longrightarrow> \<exists>x t1. m t = (Inr x, t1) \<and> f x t1 = (Inr y, t')"
  by (auto simp: seq_def split: prod.splits sum.splits)






lemma write_data_res:
  "write_data p d t = (r, t') \<Longrightarrow>
     r = Inr () \<and> (trace t' = trace t \<or> (\<exists>f. trace t' = trace t @ [Write_data f d]))"
  by (auto simp: write_data_def ret_def emit_def split: option.splits if_splits)

lemma print_log_res:
  "print_log m t = (r, t') \<Longrightarrow>
     r = Inr () \<and> (trace t' = trace t @ [Log_info m] \<or> trace t' = trace t @ [Print m])"
  by (auto simp: print_log_def emit_def split: if_splits)









section \<open>The control loop\<close>








section \<open>Closing before opening\<close>

text \<open>
  When a position must be closed first, \<open>design_and_place_order\<close> logs the closing and
  then fails in \<open>_place_order\<close>: no request is sent and the transaction list is not read.
\<close>

lemma design_and_place_order_close_raises:
  assumes "map_of (pos_dict t) i = Some p" and "must_close a (Some p)"
  shows "\<exists>e. design_and_place_order w bs i a t =
           (Inl e, t\<lparr>trace := trace t @ [Log_info (Close_position_side (side p))]\<rparr>)"
proof -
  let ?t1 = "t\<lparr>trace := trace t @ [Log_info (Close_position_side (side p))]\<rparr>"
  obtain e where "place_order w True (Kw_instrument i) ?t1 = (Inl e, ?t1)"
    using place_order_raises by blast
  then have "design_and_place_order w bs i a t = (Inl e, ?t1)"
    using assms by (simp add: design_and_place_order_def seq_def reads_def emit_def)
  then show ?thesis by blast
qed

text \<open>
  C6. A short action on an open long position (a reversal) should send the close
  request, read the transactions again and then open the order. The call logs the
  closing and raises TypeError: the events hold no close request, no transaction read
  and no order.
\<close>

theorem design_and_place_order_reversal_raises:
  "design_and_place_order world0 bet_init ''EUR_USD'' (Some ''short'') trader_long =
     (Inl (TypeError ''set object is not a mapping''),
      trader_long\<lparr>trace := [Log_info (Close_position_side ''long'')]\<rparr>)"
  by (simp add: design_and_place_order_def must_close_def truthy_def seq_def reads_def
      emit_def place_order_def f_args_of_def closing_element_def set_display_def
      unpack_set_def trader_long_def trader0_def long100_def)

text \<open>
  C8. A close request, an order and a close request in dry-run mode should each return
  normally, sent or recorded. Each raises TypeError while the arguments are built,
  before the \<open>try\<close>, and leaves no event: nothing is sent, recorded or logged.
\<close>

theorem place_order_raises_type_error:
  "place_order world0 True (Kw_instrument ''EUR_USD'') trader_long =
     (Inl (TypeError ''set object is not a mapping''), trader_long) \<and>
   place_order world0 False (Kw_order order0) trader_long =
     (Inl (TypeError ''unhashable type: dict''), trader_long) \<and>
   place_order world0 True (Kw_instrument ''EUR_USD'') (trader_long\<lparr>dry_run := True\<rparr>) =
     (Inl (TypeError ''set object is not a mapping''), trader_long\<lparr>dry_run := True\<rparr>)"
  by (simp add: place_order_def seq_def reads_def f_args_of_def closing_element_def
      set_display_def unpack_set_def)


end
